theory Spec2Isabelle
  imports Main
begin

section \<open>Strings of the runtime\<close>

text \<open>
  A string of the program is modelled as a \<^typ>\<open>string\<close>: the list of its code units,
  each in the range U+0000 .. U+00FF (the Latin-1 block, where a \<^typ>\<open>char\<close> is its
  own code unit). \<open>length\<close> is the string's \<open>.length\<close>, \<open>take n\<close> is
  \<open>.substring(0, n)\<close>.

  \<open>String.prototype.trim\<close> removes the WhiteSpace and LineTerminator code units from
  both ends. Inside the Latin-1 block these are TAB, LF, VT, FF, CR, SPACE and NBSP.
\<close>

definition is_js_whitespace :: "char \<Rightarrow> bool" where
  "is_js_whitespace c =
     (let n = (of_char c :: nat)
      in n = 9 \<or> n = 10 \<or> n = 11 \<or> n = 12 \<or> n = 13 \<or> n = 32 \<or> n = 160)"

definition trim :: "string \<Rightarrow> string" where
  "trim s = rev (dropWhile is_js_whitespace (rev (dropWhile is_js_whitespace s)))"

text \<open>
  \<open>String.prototype.toLowerCase\<close> on the Latin-1 block: the letters A..Z and the
  accented capitals U+00C0 .. U+00DE (without the multiplication sign U+00D7) move up by
  32, every other code unit stays.
\<close>

definition lower_char :: "char \<Rightarrow> char" where
  "lower_char c =
     (let n = (of_char c :: nat)
      in if (65 \<le> n \<and> n \<le> 90) \<or> (192 \<le> n \<and> n \<le> 222 \<and> n \<noteq> 215)
         then char_of (n + 32) else c)"

definition toLowerCase :: "string \<Rightarrow> string" where
  "toLowerCase s = map lower_char s"

section \<open>Branded identifiers\<close>

type_synonym MemberId = string
type_synonym TeamId = string
type_synonym QuestionId = string
type_synonym AnswerId = string

text \<open>\<open>TeamId.create\<close>: \<open>id.toLowerCase().trim()\<close>. It has no failing branch.\<close>

definition TeamId_create :: "string \<Rightarrow> TeamId" where
  "TeamId_create ident = trim (toLowerCase ident)"

text \<open>
  \<open>TeamId.isValid\<close>: the regular expression \<open>^[a-z][a-z0-9-]*$\<close> tested on
  \<open>id.toLowerCase().trim()\<close>.
\<close>

definition is_lower_az :: "char \<Rightarrow> bool" where
  "is_lower_az c = (let n = (of_char c :: nat) in 97 \<le> n \<and> n \<le> 122)"

definition is_digit09 :: "char \<Rightarrow> bool" where
  "is_digit09 c = (let n = (of_char c :: nat) in 48 \<le> n \<and> n \<le> 57)"

definition team_id_pattern :: "string \<Rightarrow> bool" where
  "team_id_pattern s =
     (case s of
        [] \<Rightarrow> False
      | c # cs \<Rightarrow> is_lower_az c \<and>
                 list_all (\<lambda>d. is_lower_az d \<or> is_digit09 d \<or> d = CHR ''-'') cs)"

definition TeamId_isValid :: "string \<Rightarrow> bool" where
  "TeamId_isValid ident = team_id_pattern (trim (toLowerCase ident))"

text \<open>\<open>createTeamId\<close> of the id generator delegates to \<open>TeamId.create\<close>.\<close>

definition createTeamId :: "string \<Rightarrow> TeamId" where
  "createTeamId name = TeamId_create name"

section \<open>Errors\<close>

text \<open>
  The error classes of \<open>shared/errors/domain-errors.ts\<close> that the modelled code throws,
  and the plain \<open>Error\<close> of the entity constructors. \<open>ValidationError\<close> carries its
  field and its message.
\<close>

datatype error =
    MemberNotFoundError string
  | TeamNotFoundError string
  | QuestionNotFoundError string
  | QuestionAlreadyAnsweredError string
  | ValidationError string string
  | PlainError string

section \<open>MessageContent value object\<close>

datatype MessageFormat = plain | markdown

record MessageContent =
  mc_text :: string
  mc_format :: MessageFormat

text \<open>\<open>config.communication.maxMessageLength\<close>.\<close>

definition maxMessageLength :: nat where
  "maxMessageLength = 50000"

text \<open>
  \<open>MessageContent.create(text, format = 'markdown')\<close>. An absent format argument is
  \<open>None\<close> and takes the default.
\<close>

definition MessageContent_create :: "string \<Rightarrow> MessageFormat option \<Rightarrow> error + MessageContent" where
  "MessageContent_create txt fmt =
     (let trimmedText = trim txt in
      if trimmedText = [] then
        Inl (ValidationError ''text'' ''Message content cannot be empty'')
      else if length trimmedText > maxMessageLength then
        Inl (ValidationError ''text''
               ''Message content exceeds maximum length of 50000 characters'')
      else
        Inr \<lparr>mc_text = trimmedText,
             mc_format = (case fmt of None \<Rightarrow> markdown | Some f \<Rightarrow> f)\<rparr>)"

text \<open>The \<open>preview\<close> getter.\<close>

definition preview :: "MessageContent \<Rightarrow> string" where
  "preview mc =
     (if length (mc_text mc) \<le> 100 then mc_text mc
      else take 97 (mc_text mc) @ ''...'')"

section \<open>Team entity and its repository\<close>

record Team =
  t_id :: TeamId
  t_name :: string
  t_createdAt :: int
  t_memberIds :: "MemberId list"

text \<open>\<open>Team.create\<close>: the member set starts empty; an all-blank name throws.\<close>

definition Team_create :: "TeamId \<Rightarrow> string \<Rightarrow> int \<Rightarrow> error + Team" where
  "Team_create ident name createdAt =
     (if trim name = [] then Inl (PlainError ''Team name cannot be empty'')
      else Inr \<lparr>t_id = ident, t_name = name, t_createdAt = createdAt, t_memberIds = []\<rparr>)"

text \<open>
  The repositories keep a \<open>Map\<close> from id to entity. A \<open>Map\<close> iterates in insertion
  order and \<open>set\<close> on a present key keeps the key's position, so the store is an
  association list with distinct keys.
\<close>

fun map_set :: "('k \<times> 'v) list \<Rightarrow> 'k \<Rightarrow> 'v \<Rightarrow> ('k \<times> 'v) list" where
  "map_set [] k v = [(k, v)]"
| "map_set ((k', v') # kvs) k v =
     (if k' = k then (k, v) # kvs else (k', v') # map_set kvs k v)"

definition map_values :: "('k \<times> 'v) list \<Rightarrow> 'v list" where
  "map_values kvs = map snd kvs"

type_synonym TeamRepository = "(TeamId \<times> Team) list"

definition TeamRepository_save :: "TeamRepository \<Rightarrow> Team \<Rightarrow> TeamRepository" where
  "TeamRepository_save teams team = map_set teams (t_id team) team"

definition TeamRepository_findById :: "TeamRepository \<Rightarrow> TeamId \<Rightarrow> Team option" where
  "TeamRepository_findById teams ident = map_of teams ident"

definition TeamRepository_findByName :: "TeamRepository \<Rightarrow> string \<Rightarrow> Team option" where
  "TeamRepository_findByName teams name = map_of teams (createTeamId name)"

text \<open>
  \<open>getOrCreate(name)\<close> returns the team and the store after the call; \<open>now\<close> is the
  clock reading of \<open>new Date()\<close>.
\<close>

definition TeamRepository_getOrCreate ::
  "TeamRepository \<Rightarrow> int \<Rightarrow> string \<Rightarrow> error + (Team \<times> TeamRepository)" where
  "TeamRepository_getOrCreate teams now name =
     (case TeamRepository_findByName teams name of
        Some existing \<Rightarrow> Inr (existing, teams)
      | None \<Rightarrow>
          (case Team_create (createTeamId name) (trim name) now of
             Inl e \<Rightarrow> Inl e
           | Inr team \<Rightarrow> Inr (team, TeamRepository_save teams team)))"

section \<open>Question entity\<close>

datatype QuestionStatus = PENDING | ANSWERED | TIMEOUT | CANCELLED

text \<open>
  A \<open>Date\<close> is its time value, the milliseconds since the epoch. The optional
  \<open>answeredAt\<close> and \<open>answeredByMemberId\<close> are \<open>None\<close> while undefined.
\<close>

record Question =
  q_id :: QuestionId
  q_fromMemberId :: MemberId
  q_toTeamId :: TeamId
  q_content :: MessageContent
  q_createdAt :: int
  q_status :: QuestionStatus
  q_answeredAt :: "int option"
  q_answeredByMemberId :: "MemberId option"

definition Question_create ::
  "QuestionId \<Rightarrow> MemberId \<Rightarrow> TeamId \<Rightarrow> MessageContent \<Rightarrow> int \<Rightarrow> Question" where
  "Question_create ident fromMemberId toTeamId content createdAt =
     \<lparr>q_id = ident, q_fromMemberId = fromMemberId, q_toTeamId = toTeamId,
      q_content = content, q_createdAt = createdAt, q_status = PENDING,
      q_answeredAt = None, q_answeredByMemberId = None\<rparr>"

definition isPending :: "Question \<Rightarrow> bool" where
  "isPending q = (q_status q = PENDING)"

definition canBeAnswered :: "Question \<Rightarrow> bool" where
  "canBeAnswered q = (q_status q = PENDING)"

definition ageMs :: "int \<Rightarrow> Question \<Rightarrow> int" where
  "ageMs now q = now - q_createdAt q"

text \<open>
  The three behaviours mutate the object. Each returns the object after the call;
  \<open>markAsAnswered\<close> returns in addition what the call raised, if anything. \<open>now\<close> is the
  clock reading of \<open>new Date()\<close>.
\<close>

definition markAsAnswered :: "Question \<Rightarrow> int \<Rightarrow> MemberId \<Rightarrow> error option \<times> Question" where
  "markAsAnswered q now answeredByMemberId =
     (if \<not> canBeAnswered q then (Some (QuestionAlreadyAnsweredError (q_id q)), q)
      else (None, q\<lparr>q_status := ANSWERED,
                     q_answeredAt := Some now,
                     q_answeredByMemberId := Some answeredByMemberId\<rparr>))"

definition markAsTimedOut :: "Question \<Rightarrow> Question" where
  "markAsTimedOut q = (if q_status q = PENDING then q\<lparr>q_status := TIMEOUT\<rparr> else q)"

definition markAsCancelled :: "Question \<Rightarrow> Question" where
  "markAsCancelled q = (if q_status q = PENDING then q\<lparr>q_status := CANCELLED\<rparr> else q)"

section \<open>Question repository\<close>

type_synonym QuestionRepository = "(QuestionId \<times> Question) list"

definition QuestionRepository_save :: "QuestionRepository \<Rightarrow> Question \<Rightarrow> QuestionRepository" where
  "QuestionRepository_save questions q = map_set questions (q_id q) q"

definition QuestionRepository_findById :: "QuestionRepository \<Rightarrow> QuestionId \<Rightarrow> Question option" where
  "QuestionRepository_findById questions ident = map_of questions ident"

definition findPendingByTeamId :: "QuestionRepository \<Rightarrow> TeamId \<Rightarrow> Question list" where
  "findPendingByTeamId questions teamId =
     filter (\<lambda>q. q_toTeamId q = teamId \<and> isPending q) (map_values questions)"

text \<open>
  \<open>markTimedOut(olderThanMs)\<close>: the loop over \<open>this.questions.values()\<close>, with the
  running \<open>count\<close>; \<open>now\<close> is read once, before the loop. The result is the count and
  the store with its questions as the loop left them.
\<close>

fun markTimedOut_loop ::
  "int \<Rightarrow> int \<Rightarrow> QuestionRepository \<Rightarrow> nat \<Rightarrow> nat \<times> QuestionRepository" where
  "markTimedOut_loop now olderThanMs [] count = (count, [])"
| "markTimedOut_loop now olderThanMs ((k, question) # rest) count =
     (if isPending question \<and> now - q_createdAt question > olderThanMs
      then (case markTimedOut_loop now olderThanMs rest (count + 1) of
              (n, rest') \<Rightarrow> (n, (k, markAsTimedOut question) # rest'))
      else (case markTimedOut_loop now olderThanMs rest count of
              (n, rest') \<Rightarrow> (n, (k, question) # rest')))"

definition markTimedOut :: "QuestionRepository \<Rightarrow> int \<Rightarrow> int \<Rightarrow> nat \<times> QuestionRepository" where
  "markTimedOut questions now olderThanMs = markTimedOut_loop now olderThanMs questions 0"

section \<open>Member entity and its repository\<close>

datatype MemberStatus = ONLINE | IDLE | OFFLINE

record Member =
  m_id :: MemberId
  m_teamId :: TeamId
  m_displayName :: string
  m_connectedAt :: int
  m_status :: MemberStatus
  m_lastActivityAt :: int

definition recordActivity :: "Member \<Rightarrow> int \<Rightarrow> Member" where
  "recordActivity m now =
     (let m' = m\<lparr>m_lastActivityAt := now\<rparr>
      in if m_status m' = IDLE then m'\<lparr>m_status := ONLINE\<rparr> else m')"

definition goOffline :: "Member \<Rightarrow> Member" where
  "goOffline m = m\<lparr>m_status := OFFLINE\<rparr>"

type_synonym MemberRepository = "(MemberId \<times> Member) list"

definition MemberRepository_save :: "MemberRepository \<Rightarrow> Member \<Rightarrow> MemberRepository" where
  "MemberRepository_save members m = map_set members (m_id m) m"

definition MemberRepository_findById :: "MemberRepository \<Rightarrow> MemberId \<Rightarrow> Member option" where
  "MemberRepository_findById members ident = map_of members ident"

section \<open>Use cases\<close>

text \<open>
  The three repositories a use case is constructed with. A use case reads the clock
  (\<open>new Date()\<close>, \<open>Date.now()\<close>) through its argument \<open>now\<close>: one reading for
  the call.
\<close>

record Repositories =
  memberRepository :: MemberRepository
  teamRepository :: TeamRepository
  questionRepository :: QuestionRepository

subsection \<open>AskQuestion\<close>

record AskQuestionInput =
  ask_fromMemberId :: MemberId
  ask_toTeamName :: string
  ask_content :: string
  ask_format :: "MessageFormat option"

record AskQuestionOutput =
  asked_questionId :: QuestionId
  asked_toTeamId :: TeamId
  asked_status :: QuestionStatus
  asked_createdAt :: int

record QuestionAskedEvent =
  ev_questionId :: QuestionId
  ev_fromMemberId :: MemberId
  ev_toTeamId :: TeamId
  ev_contentPreview :: string

text \<open>
  \<open>AskQuestionUseCase.execute\<close>. The fresh id of \<open>generateQuestionId()\<close> and the clock
  reading are arguments. A successful call returns its output, the repositories after
  the two saves, and the event handed to \<open>onQuestionAsked\<close>.
\<close>

definition AskQuestionUseCase_execute ::
  "Repositories \<Rightarrow> QuestionId \<Rightarrow> int \<Rightarrow> AskQuestionInput \<Rightarrow>
   error + (AskQuestionOutput \<times> Repositories \<times> QuestionAskedEvent)" where
  "AskQuestionUseCase_execute deps questionId now input =
     (case MemberRepository_findById (memberRepository deps) (ask_fromMemberId input) of
        None \<Rightarrow> Inl (MemberNotFoundError (ask_fromMemberId input))
      | Some member \<Rightarrow>
          (let targetTeamId = createTeamId (ask_toTeamName input) in
           case TeamRepository_findById (teamRepository deps) targetTeamId of
             None \<Rightarrow> Inl (TeamNotFoundError (ask_toTeamName input))
           | Some targetTeam \<Rightarrow>
               if m_teamId member = targetTeamId then
                 Inl (ValidationError ''toTeamName'' ''Cannot ask question to your own team'')
               else
                 (case MessageContent_create (ask_content input)
                         (Some (case ask_format input of None \<Rightarrow> markdown | Some f \<Rightarrow> f)) of
                    Inl e \<Rightarrow> Inl e
                  | Inr content \<Rightarrow>
                      (let question = Question_create questionId (ask_fromMemberId input)
                                        targetTeamId content now;
                           questions' = QuestionRepository_save (questionRepository deps) question;
                           member' = recordActivity member now;
                           members' = MemberRepository_save (memberRepository deps) member'
                       in Inr (\<lparr>asked_questionId = questionId,
                                 asked_toTeamId = targetTeamId,
                                 asked_status = q_status question,
                                 asked_createdAt = q_createdAt question\<rparr>,
                               deps\<lparr>memberRepository := members',
                                    questionRepository := questions'\<rparr>,
                               \<lparr>ev_questionId = questionId,
                                ev_fromMemberId = ask_fromMemberId input,
                                ev_toTeamId = targetTeamId,
                                ev_contentPreview = preview content\<rparr>)))))"

subsection \<open>GetInbox\<close>

record GetInboxInput =
  inbox_memberId :: MemberId
  inbox_teamId :: TeamId
  includeAnswered :: "bool option"

record InboxQuestionItem =
  item_questionId :: QuestionId
  item_fromMemberId :: MemberId
  item_fromDisplayName :: string
  item_fromTeamName :: string
  item_content :: string
  item_format :: MessageFormat
  item_status :: QuestionStatus
  item_createdAt :: int
  item_ageMs :: int

record GetInboxOutput =
  out_teamId :: TeamId
  out_teamName :: string
  out_questions :: "InboxQuestionItem list"
  out_totalCount :: nat
  out_pendingCount :: nat

text \<open>The body of the \<open>for\<close> loop: one question to one inbox item.\<close>

definition toInboxItem :: "Repositories \<Rightarrow> int \<Rightarrow> Question \<Rightarrow> InboxQuestionItem" where
  "toInboxItem deps now question =
     (let fromMember = MemberRepository_findById (memberRepository deps) (q_fromMemberId question);
          fromTeam = (case fromMember of
                        None \<Rightarrow> None
                      | Some m \<Rightarrow> TeamRepository_findById (teamRepository deps) (m_teamId m))
      in \<lparr>item_questionId = q_id question,
          item_fromMemberId = q_fromMemberId question,
          item_fromDisplayName = (case fromMember of None \<Rightarrow> ''Unknown'' | Some m \<Rightarrow> m_displayName m),
          item_fromTeamName = (case fromTeam of None \<Rightarrow> ''Unknown'' | Some t \<Rightarrow> t_name t),
          item_content = mc_text (q_content question),
          item_format = mc_format (q_content question),
          item_status = q_status question,
          item_createdAt = q_createdAt question,
          item_ageMs = ageMs now question\<rparr>)"

text \<open>
  \<open>GetInboxUseCase.execute\<close>. \<open>Array.prototype.sort\<close> is stable, and the comparator
  \<open>b.createdAt - a.createdAt\<close> orders by creation time descending: a stable sort on the
  negated time. An absent \<open>includeAnswered\<close> is falsy.
\<close>

definition GetInboxUseCase_execute ::
  "Repositories \<Rightarrow> int \<Rightarrow> GetInboxInput \<Rightarrow> error + GetInboxOutput" where
  "GetInboxUseCase_execute deps now input =
     (case MemberRepository_findById (memberRepository deps) (inbox_memberId input) of
        None \<Rightarrow> Inl (MemberNotFoundError (inbox_memberId input))
      | Some member \<Rightarrow>
          (case TeamRepository_findById (teamRepository deps) (inbox_teamId input) of
             None \<Rightarrow> Inl (TeamNotFoundError (inbox_teamId input))
           | Some team \<Rightarrow>
               (let allQuestions = findPendingByTeamId (questionRepository deps) (inbox_teamId input);
                    questions = (if includeAnswered input = Some True then allQuestions
                                 else filter isPending allQuestions);
                    questionItems = sort_key (\<lambda>i. - item_createdAt i)
                                      (map (toInboxItem deps now) questions);
                    pendingCount = length (filter (\<lambda>i. item_status i = PENDING) questionItems)
                in Inr \<lparr>out_teamId = t_id team,
                        out_teamName = t_name team,
                        out_questions = questionItems,
                        out_totalCount = length questionItems,
                        out_pendingCount = pendingCount\<rparr>)))"

section \<open>Values of the runtime and its JSON object\<close>

text \<open>
  A value that crosses the wire. A number is modelled where it is an integer (the
  protocol's numbers are counts and millisecond ages); an object is its own enumerable
  properties in enumeration order, a property that holds \<open>undefined\<close> included. The
  field names of the protocol are not array indices, so enumeration order is insertion
  order.
\<close>

datatype jsval =
    JUndefined
  | JNull
  | JBool bool
  | JNum int
  | JStr string
  | JArr "jsval list"
  | JObj "(string \<times> jsval) list"

text \<open>
  Reading an own property, \<open>v.k\<close>: \<open>undefined\<close> when the object has no such property,
  and on a primitive or an array for the names used here. (On \<open>null\<close> and \<open>undefined\<close>
  the read throws; the callers below treat \<open>null\<close> apart.)
\<close>

fun get_prop :: "jsval \<Rightarrow> string \<Rightarrow> jsval" where
  "get_prop (JObj kvs) k = (case map_of kvs k of None \<Rightarrow> JUndefined | Some v \<Rightarrow> v)"
| "get_prop v k = JUndefined"


subsection \<open>\<open>JSON.stringify\<close>\<close>

text \<open>
  \<open>QuoteJSONString\<close>: the quotation mark, the reverse solidus and the five control
  characters with a short form are escaped in two characters, every other code unit
  below U+0020 as \<open>\u00xx\<close> in lower-case hexadecimal, the rest is copied.
\<close>

definition hex_digit :: "nat \<Rightarrow> char" where
  "hex_digit d = (if d < 10 then char_of (48 + d) else char_of (87 + d))"

definition escape_char :: "char \<Rightarrow> string" where
  "escape_char c =
     (let n = (of_char c :: nat) in
      if n = 8 then [CHR 0x5C, CHR ''b'']
      else if n = 9 then [CHR 0x5C, CHR ''t'']
      else if n = 10 then [CHR 0x5C, CHR ''n'']
      else if n = 12 then [CHR 0x5C, CHR ''f'']
      else if n = 13 then [CHR 0x5C, CHR ''r'']
      else if n = 34 then [CHR 0x5C, CHR 0x22]
      else if n = 92 then [CHR 0x5C, CHR 0x5C]
      else if n < 32 then
        [CHR 0x5C, CHR ''u'', CHR ''0'', CHR ''0'', hex_digit (n div 16), hex_digit (n mod 16)]
      else [c])"

definition quote :: "string \<Rightarrow> string" where
  "quote s = CHR 0x22 # concat (map escape_char s) @ [CHR 0x22]"

text \<open>\<open>Number::toString\<close> of an integer below \<open>10^21\<close> in magnitude: its decimal digits.\<close>

function digits :: "int \<Rightarrow> string" where
  "digits n = (if n < 10 then [char_of (48 + nat n)]
               else digits (n div 10) @ [char_of (48 + nat (n mod 10))])"
  by pat_completeness auto
termination
  by (relation "measure nat") auto

declare digits.simps [simp del]

definition number_text :: "int \<Rightarrow> string" where
  "number_text i = (if i < 0 then CHR ''-'' # digits (- i) else digits i)"

fun join :: "string \<Rightarrow> string list \<Rightarrow> string" where
  "join sep [] = []"
| "join sep [x] = x"
| "join sep (x # y # ys) = x @ sep @ join sep (y # ys)"

text \<open>
  \<open>SerializeJSONProperty\<close> without indentation: an array element that is \<open>undefined\<close>
  is written \<open>null\<close>, an object property that is \<open>undefined\<close> is left out.
\<close>

fun stringify_value :: "jsval \<Rightarrow> string" where
  "stringify_value JUndefined = ''null''"
| "stringify_value JNull = ''null''"
| "stringify_value (JBool b) = (if b then ''true'' else ''false'')"
| "stringify_value (JNum i) = number_text i"
| "stringify_value (JStr s) = quote s"
| "stringify_value (JArr xs) = ''['' @ join '','' (map stringify_value xs) @ '']''"
| "stringify_value (JObj kvs) =
     ''{'' @ join '',''
        (map (\<lambda>kv. quote (fst kv) @ '':'' @ stringify_value (snd kv))
           (filter (\<lambda>kv. snd kv \<noteq> JUndefined) kvs)) @ ''}''"

text \<open>\<open>JSON.stringify(v)\<close> is \<open>undefined\<close>, not a string, for \<open>v = undefined\<close>.\<close>

definition JSON_stringify :: "jsval \<Rightarrow> string option" where
  "JSON_stringify v = (if v = JUndefined then None else Some (stringify_value v))"

subsection \<open>\<open>JSON.parse\<close>\<close>

text \<open>
  A recursive-descent reader of the JSON grammar. \<open>None\<close> is the \<open>SyntaxError\<close>; it is
  also the answer for a text outside the model: a number with a fraction or an exponent
  or beyond the safe integers, and a \<open>\u\<close> escape beyond U+00FF.
\<close>

definition is_json_ws :: "char \<Rightarrow> bool" where
  "is_json_ws c = (c = CHR 0x20 \<or> c = CHR 0x09 \<or> c = CHR 0x0A \<or> c = CHR 0x0D)"

definition skip_ws :: "string \<Rightarrow> string" where
  "skip_ws s = dropWhile is_json_ws s"

definition hex_value :: "char \<Rightarrow> nat option" where
  "hex_value c =
     (let n = (of_char c :: nat) in
      if 48 \<le> n \<and> n \<le> 57 then Some (n - 48)
      else if 97 \<le> n \<and> n \<le> 102 then Some (n - 87)
      else if 65 \<le> n \<and> n \<le> 70 then Some (n - 55)
      else None)"

definition unescape :: "char \<Rightarrow> char option" where
  "unescape e =
     (if e = CHR 0x22 then Some (CHR 0x22)
      else if e = CHR 0x5C then Some (CHR 0x5C)
      else if e = CHR ''/'' then Some (CHR ''/'')
      else if e = CHR ''b'' then Some (CHR 0x08)
      else if e = CHR ''f'' then Some (CHR 0x0C)
      else if e = CHR ''n'' then Some (CHR 0x0A)
      else if e = CHR ''r'' then Some (CHR 0x0D)
      else if e = CHR ''t'' then Some (CHR 0x09)
      else None)"

text \<open>The characters of a string literal after its opening quotation mark.\<close>

fun parse_string_chars :: "string \<Rightarrow> (string \<times> string) option" where
  "parse_string_chars [] = None"
| "parse_string_chars (c # cs) =
     (if c = CHR 0x22 then Some ([], cs)
      else if c = CHR 0x5C then
        (case cs of
           [] \<Rightarrow> None
         | e # es \<Rightarrow>
             if e = CHR ''u'' then
               (case es of
                  h1 # h2 # h3 # h4 # rest \<Rightarrow>
                    (case (hex_value h1, hex_value h2, hex_value h3, hex_value h4) of
                       (Some d1, Some d2, Some d3, Some d4) \<Rightarrow>
                         (let n = ((d1 * 16 + d2) * 16 + d3) * 16 + d4 in
                          if n < 256 then
                            (case parse_string_chars rest of
                               None \<Rightarrow> None
                             | Some (s, r) \<Rightarrow> Some (char_of n # s, r))
                          else None)
                     | _ \<Rightarrow> None)
                | _ \<Rightarrow> None)
             else
               (case unescape e of
                  None \<Rightarrow> None
                | Some ch \<Rightarrow>
                    (case parse_string_chars es of
                       None \<Rightarrow> None
                     | Some (s, r) \<Rightarrow> Some (ch # s, r))))
      else if (of_char c :: nat) < 32 then None
      else (case parse_string_chars cs of
              None \<Rightarrow> None
            | Some (s, r) \<Rightarrow> Some (c # s, r)))"

definition digits_value :: "string \<Rightarrow> int" where
  "digits_value ds = foldl (\<lambda>a c. 10 * a + int (of_char c - 48)) 0 ds"

text \<open>\<open>Number.MAX_SAFE_INTEGER\<close>, \<open>2^53 - 1\<close>.\<close>

definition MAX_SAFE_INTEGER :: int where
  "MAX_SAFE_INTEGER = 9007199254740991"

definition parse_number :: "string \<Rightarrow> (int \<times> string) option" where
  "parse_number s =
     (let negative = (s \<noteq> [] \<and> hd s = CHR ''-'');
          body = (if negative then tl s else s);
          ds = takeWhile is_digit09 body;
          rest = dropWhile is_digit09 body
      in if ds = [] then None
         else if hd ds = CHR ''0'' \<and> 1 < length ds then None
         else if rest \<noteq> [] \<and> (hd rest = CHR ''.'' \<or> hd rest = CHR ''e'' \<or> hd rest = CHR ''E'')
           then None
         else if MAX_SAFE_INTEGER < digits_value ds then None
         else Some (if negative then - digits_value ds else digits_value ds, rest))"

text \<open>
  A value, the elements of an array after its bracket, the members of an object after
  its brace. The first argument bounds the nesting still allowed; \<open>JSON_parse\<close> starts
  it above the length of the text, which no text exhausts. A repeated key keeps its
  first position and its last value, as \<open>CreateDataProperty\<close> leaves it (\<open>map_set\<close>).
\<close>

fun parse_value :: "nat \<Rightarrow> string \<Rightarrow> (jsval \<times> string) option"
and parse_elements :: "nat \<Rightarrow> string \<Rightarrow> (jsval list \<times> string) option"
and parse_members :: "nat \<Rightarrow> string \<Rightarrow> ((string \<times> jsval) list \<times> string) option"
where
  "parse_value 0 s = None"
| "parse_value (Suc n) s =
     (case skip_ws s of
        [] \<Rightarrow> None
      | c # r \<Rightarrow>
          if c = CHR ''{'' then
            (case skip_ws r of
               [] \<Rightarrow> None
             | c' # r' \<Rightarrow>
                 if c' = CHR ''}'' then Some (JObj [], r')
                 else (case parse_members n (c' # r') of
                         None \<Rightarrow> None
                       | Some (kvs, r'') \<Rightarrow>
                           Some (JObj (foldl (\<lambda>acc kv. map_set acc (fst kv) (snd kv)) [] kvs), r'')))
          else if c = CHR ''['' then
            (case skip_ws r of
               [] \<Rightarrow> None
             | c' # r' \<Rightarrow>
                 if c' = CHR '']'' then Some (JArr [], r')
                 else (case parse_elements n (c' # r') of
                         None \<Rightarrow> None
                       | Some (vs, r'') \<Rightarrow> Some (JArr vs, r'')))
          else if c = CHR 0x22 then
            (case parse_string_chars r of
               None \<Rightarrow> None
             | Some (str, r') \<Rightarrow> Some (JStr str, r'))
          else if c = CHR ''t'' then
            (if take 3 r = ''rue'' then Some (JBool True, drop 3 r) else None)
          else if c = CHR ''f'' then
            (if take 4 r = ''alse'' then Some (JBool False, drop 4 r) else None)
          else if c = CHR ''n'' then
            (if take 3 r = ''ull'' then Some (JNull, drop 3 r) else None)
          else (case parse_number (c # r) of
                  None \<Rightarrow> None
                | Some (i, r') \<Rightarrow> Some (JNum i, r')))"
| "parse_elements 0 s = None"
| "parse_elements (Suc n) s =
     (case parse_value n s of
        None \<Rightarrow> None
      | Some (v, r) \<Rightarrow>
          (case skip_ws r of
             [] \<Rightarrow> None
           | c # r' \<Rightarrow>
               if c = CHR '','' then
                 (case parse_elements n r' of
                    None \<Rightarrow> None
                  | Some (vs, r'') \<Rightarrow> Some (v # vs, r''))
               else if c = CHR '']'' then Some ([v], r')
               else None))"
| "parse_members 0 s = None"
| "parse_members (Suc n) s =
     (case skip_ws s of
        [] \<Rightarrow> None
      | q # r \<Rightarrow>
          if q \<noteq> CHR 0x22 then None
          else
            (case parse_string_chars r of
               None \<Rightarrow> None
             | Some (k, r1) \<Rightarrow>
                 (case skip_ws r1 of
                    [] \<Rightarrow> None
                  | colon # r2 \<Rightarrow>
                      if colon \<noteq> CHR '':'' then None
                      else
                        (case parse_value n r2 of
                           None \<Rightarrow> None
                         | Some (v, r3) \<Rightarrow>
                             (case skip_ws r3 of
                                [] \<Rightarrow> None
                              | c # r4 \<Rightarrow>
                                  if c = CHR '','' then
                                    (case parse_members n r4 of
                                       None \<Rightarrow> None
                                     | Some (kvs, r5) \<Rightarrow> Some ((k, v) # kvs, r5))
                                  else if c = CHR ''}'' then Some ([(k, v)], r4)
                                  else None)))))"

definition JSON_parse :: "string \<Rightarrow> jsval option" where
  "JSON_parse s =
     (case parse_value (length s + 1) s of
        None \<Rightarrow> None
      | Some (v, r) \<Rightarrow> if skip_ws r = [] then Some v else None)"

text \<open>
  What a JSON text carries of a value: an \<open>undefined\<close> array element is read back as
  \<open>null\<close>, an \<open>undefined\<close> property is not read back at all.
\<close>

fun json_norm :: "jsval \<Rightarrow> jsval" where
  "json_norm JUndefined = JNull"
| "json_norm JNull = JNull"
| "json_norm (JBool b) = JBool b"
| "json_norm (JNum i) = JNum i"
| "json_norm (JStr s) = JStr s"
| "json_norm (JArr xs) = JArr (map json_norm xs)"
| "json_norm (JObj kvs) =
     JObj (map (\<lambda>kv. (fst kv, json_norm (snd kv))) (filter (\<lambda>kv. snd kv \<noteq> JUndefined) kvs))"

text \<open>
  The values the model speaks for: every number is a safe integer, and no object
  holds two properties of one name.
\<close>

fun json_ok :: "jsval \<Rightarrow> bool" where
  "json_ok JUndefined = True"
| "json_ok JNull = True"
| "json_ok (JBool b) = True"
| "json_ok (JNum i) = (\<bar>i\<bar> \<le> MAX_SAFE_INTEGER)"
| "json_ok (JStr s) = True"
| "json_ok (JArr xs) = list_all json_ok xs"
| "json_ok (JObj kvs) =
     (distinct (map fst (filter (\<lambda>kv. snd kv \<noteq> JUndefined) kvs))
      \<and> list_all (\<lambda>kv. json_ok (snd kv)) kvs)"



definition value_follow :: "string \<Rightarrow> bool" where
  "value_follow r = (r = [] \<or> hd r = CHR '','' \<or> hd r = CHR '']'' \<or> hd r = CHR ''}'')"

section \<open>Message protocol\<close>

text \<open>
  The message interfaces of \<open>message-protocol.ts\<close>. The \<open>type\<close> tag of an interface is
  the constructor; an optional field (\<open>requestId?\<close>) is an \<open>option\<close>. The numbers are
  counts and millisecond ages.
\<close>

record MemberInfo =
  mi_memberId :: MemberId
  mi_teamId :: TeamId
  mi_teamName :: string
  mi_displayName :: string
  mi_status :: MemberStatus

record InboxQuestionInfo =
  iq_questionId :: QuestionId
  iq_from :: MemberInfo
  iq_content :: string
  iq_format :: MessageFormat
  iq_status :: QuestionStatus
  iq_createdAt :: string
  iq_ageMs :: int


datatype HubMessage =
    JoinedMessage MemberInfo int
  | LeftMessage MemberId
  | MemberJoinedMessage MemberInfo
  | MemberLeftMessage MemberId TeamId
  | QuestionMessage QuestionId MemberInfo string MessageFormat string
  | AnswerMessage QuestionId MemberInfo string MessageFormat string "string option"
  | QuestionSentMessage QuestionId TeamId QuestionStatus string
  | InboxMessage "InboxQuestionInfo list" int int string
  | PongMessage string
  | ErrorMessage string string "string option"

text \<open>
  The object each message is at run time: its fields in the order of the interface, the
  string enums and literal types as their strings. An optional field that is not given
  is a property holding \<open>undefined\<close>, as \<open>createErrorMessage\<close> builds it.
\<close>

fun MessageFormat_js :: "MessageFormat \<Rightarrow> jsval" where
  "MessageFormat_js plain = JStr ''plain''"
| "MessageFormat_js markdown = JStr ''markdown''"

fun MemberStatus_js :: "MemberStatus \<Rightarrow> jsval" where
  "MemberStatus_js ONLINE = JStr ''ONLINE''"
| "MemberStatus_js IDLE = JStr ''IDLE''"
| "MemberStatus_js OFFLINE = JStr ''OFFLINE''"

fun QuestionStatus_js :: "QuestionStatus \<Rightarrow> jsval" where
  "QuestionStatus_js PENDING = JStr ''PENDING''"
| "QuestionStatus_js ANSWERED = JStr ''ANSWERED''"
| "QuestionStatus_js TIMEOUT = JStr ''TIMEOUT''"
| "QuestionStatus_js CANCELLED = JStr ''CANCELLED''"

definition optional_js :: "string option \<Rightarrow> jsval" where
  "optional_js x = (case x of None \<Rightarrow> JUndefined | Some s \<Rightarrow> JStr s)"

definition MemberInfo_obj :: "MemberInfo \<Rightarrow> jsval" where
  "MemberInfo_obj mi =
     JObj [(''memberId'', JStr (mi_memberId mi)),
           (''teamId'', JStr (mi_teamId mi)),
           (''teamName'', JStr (mi_teamName mi)),
           (''displayName'', JStr (mi_displayName mi)),
           (''status'', MemberStatus_js (mi_status mi))]"

definition InboxQuestionInfo_obj :: "InboxQuestionInfo \<Rightarrow> jsval" where
  "InboxQuestionInfo_obj q =
     JObj [(''questionId'', JStr (iq_questionId q)),
           (''from'', MemberInfo_obj (iq_from q)),
           (''content'', JStr (iq_content q)),
           (''format'', MessageFormat_js (iq_format q)),
           (''status'', QuestionStatus_js (iq_status q)),
           (''createdAt'', JStr (iq_createdAt q)),
           (''ageMs'', JNum (iq_ageMs q))]"


fun HubMessage_obj :: "HubMessage \<Rightarrow> jsval" where
  "HubMessage_obj (JoinedMessage member memberCount) =
     JObj [(''type'', JStr ''JOINED''), (''member'', MemberInfo_obj member),
           (''memberCount'', JNum memberCount)]"
| "HubMessage_obj (LeftMessage memberId) =
     JObj [(''type'', JStr ''LEFT''), (''memberId'', JStr memberId)]"
| "HubMessage_obj (MemberJoinedMessage member) =
     JObj [(''type'', JStr ''MEMBER_JOINED''), (''member'', MemberInfo_obj member)]"
| "HubMessage_obj (MemberLeftMessage memberId teamId) =
     JObj [(''type'', JStr ''MEMBER_LEFT''), (''memberId'', JStr memberId),
           (''teamId'', JStr teamId)]"
| "HubMessage_obj (QuestionMessage questionId sender content fmt createdAt) =
     JObj [(''type'', JStr ''QUESTION''), (''questionId'', JStr questionId),
           (''from'', MemberInfo_obj sender), (''content'', JStr content),
           (''format'', MessageFormat_js fmt), (''createdAt'', JStr createdAt)]"
| "HubMessage_obj (AnswerMessage questionId sender content fmt answeredAt requestId) =
     JObj [(''type'', JStr ''ANSWER''), (''questionId'', JStr questionId),
           (''from'', MemberInfo_obj sender), (''content'', JStr content),
           (''format'', MessageFormat_js fmt), (''answeredAt'', JStr answeredAt),
           (''requestId'', optional_js requestId)]"
| "HubMessage_obj (QuestionSentMessage questionId toTeamId status requestId) =
     JObj [(''type'', JStr ''QUESTION_SENT''), (''questionId'', JStr questionId),
           (''toTeamId'', JStr toTeamId), (''status'', QuestionStatus_js status),
           (''requestId'', JStr requestId)]"
| "HubMessage_obj (InboxMessage questions totalCount pendingCount requestId) =
     JObj [(''type'', JStr ''INBOX''), (''questions'', JArr (map InboxQuestionInfo_obj questions)),
           (''totalCount'', JNum totalCount), (''pendingCount'', JNum pendingCount),
           (''requestId'', JStr requestId)]"
| "HubMessage_obj (PongMessage timestamp) =
     JObj [(''type'', JStr ''PONG''), (''timestamp'', JStr timestamp)]"
| "HubMessage_obj (ErrorMessage code message requestId) =
     JObj [(''type'', JStr ''ERROR''), (''code'', JStr code), (''message'', JStr message),
           (''requestId'', optional_js requestId)]"

text \<open>\<open>Number.isSafeInteger\<close> on the numbers of a hub message.\<close>

definition isSafeInteger :: "int \<Rightarrow> bool" where
  "isSafeInteger i = (\<bar>i\<bar> \<le> MAX_SAFE_INTEGER)"


text \<open>
  \<open>serializeMessage\<close>: \<open>JSON.stringify(message)\<close>, a string since a message is an
  object.
\<close>

definition serializeMessage :: "jsval \<Rightarrow> string" where
  "serializeMessage message = stringify_value message"

text \<open>\<open>parseHubMessage\<close>: \<open>JSON.parse(data)\<close> under a cast; \<open>None\<close> is the thrown error.\<close>

definition parseHubMessage :: "string \<Rightarrow> jsval option" where
  "parseHubMessage data = JSON_parse data"






section \<open>Hub server: leaving a team\<close>

text \<open>
  The part of \<open>HubServer\<close> that \<open>LEAVE\<close> runs through. A socket is a number;
  \<open>openSockets\<close> lists those whose \<open>readyState\<close> is \<open>OPEN\<close>; \<open>sent\<close> is the log of what
  was handed to \<open>ws.send\<close>, as the socket and the message object whose
  \<open>serializeMessage\<close> goes on the wire.
\<close>

record ClientConnection =
  c_memberId :: "MemberId option"
  c_teamId :: "TeamId option"
  c_lastPing :: int

record HubServer =
  clients :: "(nat \<times> ClientConnection) list"
  memberToWs :: "(MemberId \<times> nat) list"
  hubRepositories :: Repositories
  openSockets :: "nat list"
  sent :: "(nat \<times> jsval) list"

definition Team_removeMember :: "Team \<Rightarrow> MemberId \<Rightarrow> Team" where
  "Team_removeMember team memberId =
     team\<lparr>t_memberIds := filter (\<lambda>m. m \<noteq> memberId) (t_memberIds team)\<rparr>"

definition getOtherMemberIds :: "Team \<Rightarrow> MemberId \<Rightarrow> MemberId list" where
  "getOtherMemberIds team excludeMemberId =
     filter (\<lambda>m. m \<noteq> excludeMemberId) (t_memberIds team)"

definition send :: "HubServer \<Rightarrow> nat \<Rightarrow> jsval \<Rightarrow> HubServer" where
  "send hub ws message =
     (if ws \<in> set (openSockets hub) then hub\<lparr>sent := sent hub @ [(ws, message)]\<rparr> else hub)"

definition broadcastToTeam :: "HubServer \<Rightarrow> TeamId \<Rightarrow> MemberId \<Rightarrow> jsval \<Rightarrow> HubServer" where
  "broadcastToTeam hub teamId excludeMemberId message =
     (case TeamRepository_findById (teamRepository (hubRepositories hub)) teamId of
        None \<Rightarrow> hub
      | Some team \<Rightarrow>
          foldl (\<lambda>h memberId.
                   case map_of (memberToWs h) memberId of
                     None \<Rightarrow> h
                   | Some ws \<Rightarrow> send h ws message)
            hub (getOtherMemberIds team excludeMemberId))"

definition removeMember :: "HubServer \<Rightarrow> MemberId \<Rightarrow> TeamId \<Rightarrow> HubServer" where
  "removeMember hub memberId teamId =
     (let repos = hubRepositories hub;
          repos1 = (case MemberRepository_findById (memberRepository repos) memberId of
                      None \<Rightarrow> repos
                    | Some member \<Rightarrow>
                        repos\<lparr>memberRepository :=
                                 MemberRepository_save (memberRepository repos) (goOffline member)\<rparr>)
      in case TeamRepository_findById (teamRepository repos1) teamId of
           None \<Rightarrow> hub\<lparr>hubRepositories := repos1\<rparr>
         | Some team \<Rightarrow>
             broadcastToTeam
               (hub\<lparr>hubRepositories :=
                       repos1\<lparr>teamRepository :=
                                 TeamRepository_save (teamRepository repos1)
                                   (Team_removeMember team memberId)\<rparr>\<rparr>)
               teamId memberId
               (JObj [(''type'', JStr ''MEMBER_LEFT''), (''memberId'', JStr memberId),
                      (''teamId'', JStr teamId)]))"

text \<open>
  \<open>handleLeave(ws, connection)\<close>, with \<open>connection\<close> the entry of \<open>ws\<close> in \<open>clients\<close>
  (\<open>handleMessage\<close> returns before the dispatch when there is none). A member id or a
  team id is truthy when it is a non-empty string. The reply is built after the two
  fields of the connection were cleared.
\<close>

definition handleLeave :: "HubServer \<Rightarrow> nat \<Rightarrow> HubServer" where
  "handleLeave hub ws =
     (case map_of (clients hub) ws of
        None \<Rightarrow> hub
      | Some connection \<Rightarrow>
          (let (hub1, connection1) =
                 (case (c_memberId connection, c_teamId connection) of
                    (Some memberId, Some teamId) \<Rightarrow>
                      if memberId \<noteq> [] \<and> teamId \<noteq> [] then
                        (removeMember hub memberId teamId,
                         connection\<lparr>c_memberId := None, c_teamId := None\<rparr>)
                      else (hub, connection)
                  | _ \<Rightarrow> (hub, connection));
               hub2 = hub1\<lparr>clients := map_set (clients hub1) ws connection1\<rparr>
           in send hub2 ws
                (JObj [(''type'', JStr ''LEFT''),
                       (''memberId'', optional_js (c_memberId connection1))])))"

section \<open>Hub client: waiters and inbound messages\<close>

text \<open>
  The state of a \<open>HubClient\<close> that an inbound message touches. A pending request is
  known by its request id and carries its filter; \<open>listener\<close> is the one \<open>message\<close>
  listener of the socket: \<open>None\<close> for the listener of \<open>connect\<close>, which calls
  \<open>handleMessage\<close>, and the request id and filter of the \<open>checkFilter\<close> closure that
  the latest \<open>waitForResponse\<close> installed otherwise. \<open>timers\<close> are the armed timeouts,
  \<open>settled\<close> the promises settled so far (with the message, or \<open>None\<close> for the
  rejection), \<open>calls\<close> the log of calls to the observers and to \<open>console.error\<close>.
  A filter is a predicate on the values other than \<open>null\<close>; on \<open>null\<close> the filters
  of this client throw, reading \<open>msg.type\<close>.
\<close>

datatype observer_call =
    onQuestion jsval
  | onAnswer jsval
  | onMemberJoined jsval
  | onMemberLeft jsval jsval
  | onError jsval jsval
  | consoleError

record HubClientEvents =
  has_onQuestion :: bool
  has_onAnswer :: bool
  has_onMemberJoined :: bool
  has_onMemberLeft :: bool
  has_onError :: bool

record HubClient =
  pendingRequests :: "(string \<times> (jsval \<Rightarrow> bool)) list"
  listener :: "(string \<times> (jsval \<Rightarrow> bool)) option"
  timers :: "string list"
  settled :: "(string \<times> jsval option) list"
  calls :: "observer_call list"
  events :: HubClientEvents

definition map_delete :: "('k \<times> 'v) list \<Rightarrow> 'k \<Rightarrow> ('k \<times> 'v) list" where
  "map_delete kvs k = filter (\<lambda>kv. fst kv \<noteq> k) kvs"

text \<open>Settling a promise: the first settlement stays.\<close>

definition settle :: "HubClient \<Rightarrow> string \<Rightarrow> jsval option \<Rightarrow> HubClient" where
  "settle client requestId outcome =
     (if requestId \<in> fst ` set (settled client) then client
      else client\<lparr>settled := settled client @ [(requestId, outcome)]\<rparr>)"

definition clearTimeout :: "HubClient \<Rightarrow> string \<Rightarrow> HubClient" where
  "clearTimeout client requestId =
     client\<lparr>timers := filter (\<lambda>t. t \<noteq> requestId) (timers client)\<rparr>"

text \<open>
  \<open>waitForResponse(filter, timeoutMs)\<close> on a connected client, with the fresh request
  id as argument: it arms the timeout, stores the pending request and replaces the
  socket's \<open>message\<close> listener by its own \<open>checkFilter\<close>.
\<close>

definition waitForResponse :: "HubClient \<Rightarrow> string \<Rightarrow> (jsval \<Rightarrow> bool) \<Rightarrow> HubClient" where
  "waitForResponse client requestId flt =
     client\<lparr>timers := timers client @ [requestId],
            pendingRequests := map_set (pendingRequests client) requestId flt,
            listener := Some (requestId, flt)\<rparr>"

text \<open>The callback of the timeout of \<open>requestId\<close>, when it fires.\<close>

definition timeoutFired :: "HubClient \<Rightarrow> string \<Rightarrow> HubClient" where
  "timeoutFired client requestId =
     (if requestId \<notin> set (timers client) then client
      else settle
             ((clearTimeout client requestId)
                \<lparr>pendingRequests := map_delete (pendingRequests client) requestId\<rparr>)
             requestId None)"

text \<open>
  \<open>resolvePendingRequest(message)\<close>: the loop body runs for the first entry of the map
  and breaks. \<open>pending.resolve\<close> settles the promise only when the filter holds.
\<close>

definition resolvePendingRequest :: "HubClient \<Rightarrow> jsval \<Rightarrow> HubClient" where
  "resolvePendingRequest client message =
     (case pendingRequests client of
        [] \<Rightarrow> client
      | (requestId, flt) # rest \<Rightarrow>
          (let client1 = clearTimeout (client\<lparr>pendingRequests := rest\<rparr>) requestId
           in if flt message then settle client1 requestId (Some message) else client1))"

definition notify :: "HubClient \<Rightarrow> observer_call \<Rightarrow> HubClient" where
  "notify client call = client\<lparr>calls := calls client @ [call]\<rparr>"

text \<open>
  \<open>handleMessage(data)\<close>: a text that does not parse, and \<open>null\<close>, end in the
  \<open>catch\<close>; otherwise the \<open>switch\<close> calls the observer of the type if one is
  registered, and \<open>resolvePendingRequest\<close> follows.
\<close>

definition handleMessage :: "HubClient \<Rightarrow> string \<Rightarrow> HubClient" where
  "handleMessage client data =
     (case parseHubMessage data of
        None \<Rightarrow> notify client consoleError
      | Some message \<Rightarrow>
          if message = JNull then notify client consoleError
          else
            (let t = get_prop message ''type'';
                 ev = events client;
                 client1 =
                   (if t = JStr ''QUESTION'' then
                      (if has_onQuestion ev then notify client (onQuestion message) else client)
                    else if t = JStr ''ANSWER'' then
                      (if has_onAnswer ev then notify client (onAnswer message) else client)
                    else if t = JStr ''MEMBER_JOINED'' then
                      (if has_onMemberJoined ev
                       then notify client (onMemberJoined (get_prop message ''member''))
                       else client)
                    else if t = JStr ''MEMBER_LEFT'' then
                      (if has_onMemberLeft ev
                       then notify client (onMemberLeft (get_prop message ''memberId'')
                                             (get_prop message ''teamId''))
                       else client)
                    else if t = JStr ''ERROR'' then
                      (if has_onError ev
                       then notify client (onError (get_prop message ''code'')
                                             (get_prop message ''message''))
                       else client)
                    else client)
             in resolvePendingRequest client1 message))"

text \<open>
  The \<open>checkFilter\<close> closure of the waiter \<open>requestId\<close>: its own test first (errors
  ignored), then the original handler.
\<close>

definition checkFilter :: "HubClient \<Rightarrow> string \<Rightarrow> (jsval \<Rightarrow> bool) \<Rightarrow> string \<Rightarrow> HubClient" where
  "checkFilter client requestId flt data =
     (let client1 =
            (case parseHubMessage data of
               None \<Rightarrow> client
             | Some message \<Rightarrow>
                 if message \<noteq> JNull \<and> flt message then
                   settle
                     (clearTimeout
                        (client\<lparr>pendingRequests := map_delete (pendingRequests client) requestId\<rparr>)
                        requestId)
                     requestId (Some message)
                 else client)
      in handleMessage client1 data)"

text \<open>The socket's \<open>message\<close> event.\<close>

definition onMessage :: "HubClient \<Rightarrow> string \<Rightarrow> HubClient" where
  "onMessage client data =
     (case listener client of
        None \<Rightarrow> handleMessage client data
      | Some (requestId, flt) \<Rightarrow> checkFilter client requestId flt data)"

definition HubClient_new :: "HubClientEvents \<Rightarrow> HubClient" where
  "HubClient_new ev =
     \<lparr>pendingRequests = [], listener = None, timers = [], settled = [], calls = [],
      events = ev\<rparr>"

section \<open>Facts about trimming and lower-casing\<close>

lemma trim_idem: "trim (trim s) = trim s"
proof -
  define a where "a = dropWhile is_js_whitespace s"
  define y where "y = dropWhile is_js_whitespace (rev a)"
  have hd_a: "\<not> is_js_whitespace (hd a)" if "a \<noteq> []"
    using that unfolding a_def by (rule hd_dropWhile)
  have split: "rev a = takeWhile is_js_whitespace (rev a) @ y"
    unfolding y_def by simp
  have ne: "a \<noteq> []" if "y \<noteq> []" using that unfolding y_def by auto
  have last_y: "last y = hd a" if "y \<noteq> []"
  proof -
    have "last (rev a) = last y"
      using that by (subst split) simp
    then show ?thesis using ne [OF that] by (simp add: last_rev)
  qed
  have front: "dropWhile is_js_whitespace (rev y) = rev y"
  proof (cases "y = []")
    case True
    then show ?thesis by simp
  next
    case False
    then have "\<not> is_js_whitespace (hd (rev y))"
      using last_y hd_a ne by (simp add: hd_rev)
    then show ?thesis by (simp add: dropWhile_eq_self_iff)
  qed
  have rear: "dropWhile is_js_whitespace y = y"
    unfolding y_def by (rule dropWhile_idem)
  have t: "trim s = rev y" unfolding trim_def y_def a_def by simp
  have "trim (rev y) = rev (dropWhile is_js_whitespace (rev (dropWhile is_js_whitespace (rev y))))"
    unfolding trim_def by simp
  also have "\<dots> = rev y" unfolding front by (simp add: rear)
  finally show ?thesis unfolding t .
qed

lemma trim_map:
  assumes "\<And>c. is_js_whitespace (f c) = is_js_whitespace c"
  shows "trim (map f s) = map f (trim s)"
proof -
  have dw: "dropWhile is_js_whitespace (map f xs) = map f (dropWhile is_js_whitespace xs)" for xs
    by (simp add: dropWhile_map comp_def assms)
  show ?thesis unfolding trim_def by (simp add: dw rev_map)
qed

lemma trim_no_ws:
  assumes "s \<noteq> []" "\<not> is_js_whitespace (hd s)" "\<not> is_js_whitespace (last s)"
  shows "trim s = s"
proof -
  have a: "dropWhile is_js_whitespace s = s"
    using assms by (simp add: dropWhile_eq_self_iff)
  have b: "dropWhile is_js_whitespace (rev s) = rev s"
    using assms by (simp add: dropWhile_eq_self_iff hd_rev)
  show ?thesis unfolding trim_def a b by simp
qed

lemma trim_replicate:
  assumes "\<not> is_js_whitespace c"
  shows "trim (replicate n c) = replicate n c"
proof (cases n)
  case 0
  then show ?thesis by (simp add: trim_def)
next
  case (Suc k)
  have "replicate n c \<noteq> []" using Suc by simp
  moreover have "hd (replicate n c) = c" using Suc by simp
  moreover have "last (replicate n c) = c" using Suc by (simp add: last_replicate)
  ultimately show ?thesis using assms by (simp add: trim_no_ws)
qed

lemma of_char_lt_256: "(of_char c :: nat) < 256"
  by (metis of_char_mod_256 mod_less_divisor zero_less_numeral)

lemma lower_char_idem: "lower_char (lower_char c) = lower_char c"
proof -
  have "(of_char c :: nat) < 256" by (rule of_char_lt_256)
  then show ?thesis
    unfolding lower_char_def Let_def by simp
qed

lemma ws_lower_char: "is_js_whitespace (lower_char c) = is_js_whitespace c"
proof (cases "(65 \<le> (of_char c :: nat) \<and> (of_char c :: nat) \<le> 90) \<or>
              (192 \<le> (of_char c :: nat) \<and> (of_char c :: nat) \<le> 222 \<and> (of_char c :: nat) \<noteq> 215)")
  case True
  then have n: "65 \<le> (of_char c :: nat)" "(of_char c :: nat) \<le> 222" by arith+
  have l: "lower_char c = char_of ((of_char c :: nat) + 32)"
    using True unfolding lower_char_def Let_def by simp
  have "(of_char (lower_char c) :: nat) = of_char c + 32"
    using n unfolding l by simp
  then show ?thesis using True unfolding is_js_whitespace_def Let_def by auto
next
  case False
  have "lower_char c = c"
    unfolding lower_char_def Let_def by (rule if_not_P) (rule False)
  then show ?thesis by simp
qed

lemma TeamId_create_idem: "TeamId_create (TeamId_create s) = TeamId_create s"
proof -
  have "toLowerCase (trim (toLowerCase s)) = trim (toLowerCase (toLowerCase s))"
    unfolding toLowerCase_def by (simp add: trim_map ws_lower_char)
  also have "toLowerCase (toLowerCase s) = toLowerCase s"
    unfolding toLowerCase_def by (simp add: lower_char_idem)
  finally show ?thesis unfolding TeamId_create_def by (simp add: trim_idem)
qed

lemma map_of_map_set: "map_of (map_set kvs k v) k = Some v"
  by (induction kvs k v rule: map_set.induct) auto

section \<open>Team ids\<close>

lemma TeamId_create_examples:
  "TeamId_create ''Frontend'' = ''frontend''"
  "TeamId_create ''FRONTEND'' = ''frontend''"
  "TeamId_create ''frontend'' = ''frontend''"
  by code_simp+

lemma getOrCreate_nonblank:
  assumes "trim name \<noteq> []"
  shows "\<exists>team teams'. TeamRepository_getOrCreate teams now name = Inr (team, teams')
           \<and> (TeamRepository_findByName teams name = None \<longrightarrow> t_id team = createTeamId name)"
  using assms
  by (simp add: TeamRepository_getOrCreate_def Team_create_def trim_idem split: option.splits)

lemma getOrCreate_again:
  assumes "TeamRepository_getOrCreate teams now n1 = Inr (team, teams')"
      and "createTeamId n2 = createTeamId n1"
  shows "TeamRepository_getOrCreate teams' now' n2 = Inr (team, teams')"
proof (cases "TeamRepository_findByName teams n1")
  case None
  with assms(1) have t: "team = \<lparr>t_id = createTeamId n1, t_name = trim n1, t_createdAt = now, t_memberIds = []\<rparr>"
    and s: "teams' = TeamRepository_save teams team"
    by (auto simp: TeamRepository_getOrCreate_def Team_create_def split: if_splits)
  have "TeamRepository_findByName teams' n2 = Some team"
    unfolding TeamRepository_findByName_def s TeamRepository_save_def assms(2)
    by (simp add: t map_of_map_set)
  then show ?thesis by (simp add: TeamRepository_getOrCreate_def)
next
  case (Some existing)
  with assms(1) have "team = existing" "teams' = teams"
    by (auto simp: TeamRepository_getOrCreate_def)
  with Some have "TeamRepository_findByName teams' n2 = Some team"
    unfolding TeamRepository_findByName_def assms(2) by simp
  then show ?thesis by (simp add: TeamRepository_getOrCreate_def)
qed

text \<open>
  Claim C3, as stated, fails on its second half: construction does not reject a name
  whose normalized form is outside \<open>^[a-z][a-z0-9-]*$\<close>. \<open>TeamId.isValid\<close> reports
  \<open>false\<close> for \<open>123team\<close> and \<open>team_name\<close>, while \<open>createTeamId\<close> returns the id
  \<open>123team\<close> and \<open>getOrCreate\<close> on an empty store creates and stores the team
  \<open>team_name\<close>.
\<close>

theorem TeamId_invalid_name_gets_id:
  "TeamId_isValid ''123team'' = False
   \<and> createTeamId ''123team'' = ''123team''
   \<and> TeamId_isValid ''team_name'' = False
   \<and> TeamRepository_getOrCreate [] 0 ''team_name'' =
       Inr (\<lparr>t_id = ''team_name'', t_name = ''team_name'', t_createdAt = 0, t_memberIds = []\<rparr>,
            [(''team_name'',
              \<lparr>t_id = ''team_name'', t_name = ''team_name'', t_createdAt = 0, t_memberIds = []\<rparr>)])"
  by code_simp

text \<open>
  Claim C3, amended: team-id construction is the normalization lower-case-then-trim. It
  sends \<open>Frontend\<close>, \<open>FRONTEND\<close> and \<open>frontend\<close> to \<open>frontend\<close>, it is idempotent,
  and a second \<open>getOrCreate\<close> under any name with the same normalized form returns
  the team of the first and leaves the store as it is. Construction has no rejecting
  branch for a malformed id: \<open>getOrCreate\<close> succeeds for every name that is not blank
  after trimming (and a team it creates has the normalized name as id); the pattern is
  only what \<open>TeamId.isValid\<close> computes on the normalized form.
\<close>

theorem TeamId_normalization:
  "createTeamId ''Frontend'' = ''frontend''
   \<and> createTeamId ''FRONTEND'' = ''frontend''
   \<and> createTeamId ''frontend'' = ''frontend''
   \<and> createTeamId s = TeamId_create s
   \<and> TeamId_create (TeamId_create s) = TeamId_create s
   \<and> (TeamRepository_getOrCreate teams now n1 = Inr (team, teams')
        \<and> createTeamId n2 = createTeamId n1 \<longrightarrow>
        TeamRepository_getOrCreate teams' now' n2 = Inr (team, teams'))
   \<and> (trim name \<noteq> [] \<longrightarrow>
        (\<exists>tm tms. TeamRepository_getOrCreate teams now name = Inr (tm, tms)
           \<and> (TeamRepository_findByName teams name = None \<longrightarrow> t_id tm = createTeamId name)))
   \<and> (TeamId_isValid s \<longleftrightarrow> team_id_pattern (TeamId_create s))"
proof -
  have again: "TeamRepository_getOrCreate teams now n1 = Inr (team, teams')
        \<and> createTeamId n2 = createTeamId n1 \<longrightarrow>
        TeamRepository_getOrCreate teams' now' n2 = Inr (team, teams')"
    using getOrCreate_again by blast
  have nonblank: "trim name \<noteq> [] \<longrightarrow>
        (\<exists>tm tms. TeamRepository_getOrCreate teams now name = Inr (tm, tms)
           \<and> (TeamRepository_findByName teams name = None \<longrightarrow> t_id tm = createTeamId name))"
    using getOrCreate_nonblank by blast
  have valid: "TeamId_isValid s \<longleftrightarrow> team_id_pattern (TeamId_create s)"
    by (simp add: TeamId_isValid_def TeamId_create_def)
  show ?thesis
    unfolding createTeamId_def TeamId_create_examples TeamId_create_idem
    using again nonblank valid unfolding createTeamId_def by simp
qed

theorem TeamId_normalization_witness:
  "trim ''Frontend'' = ''Frontend''
   \<and> TeamRepository_findByName [] ''Frontend'' = None
   \<and> TeamRepository_getOrCreate [] 0 ''Frontend'' =
     Inr (\<lparr>t_id = ''frontend'', t_name = ''Frontend'', t_createdAt = 0, t_memberIds = []\<rparr>,
          [(''frontend'', \<lparr>t_id = ''frontend'', t_name = ''Frontend'', t_createdAt = 0, t_memberIds = []\<rparr>)])
   \<and> createTeamId ''FRONTEND'' = createTeamId ''Frontend''
   \<and> TeamRepository_getOrCreate
        [(''frontend'', \<lparr>t_id = ''frontend'', t_name = ''Frontend'', t_createdAt = 0, t_memberIds = []\<rparr>)]
        5 ''FRONTEND'' =
     Inr (\<lparr>t_id = ''frontend'', t_name = ''Frontend'', t_createdAt = 0, t_memberIds = []\<rparr>,
          [(''frontend'', \<lparr>t_id = ''frontend'', t_name = ''Frontend'', t_createdAt = 0, t_memberIds = []\<rparr>)])"
proof -
  have h1: "TeamRepository_getOrCreate [] 0 ''Frontend'' =
     Inr (\<lparr>t_id = ''frontend'', t_name = ''Frontend'', t_createdAt = 0, t_memberIds = []\<rparr>,
          [(''frontend'', \<lparr>t_id = ''frontend'', t_name = ''Frontend'', t_createdAt = 0, t_memberIds = []\<rparr>)])"
    by code_simp
  have h2: "createTeamId ''FRONTEND'' = createTeamId ''Frontend''"
    by code_simp
  have h3: "trim ''Frontend'' = ''Frontend''"
    by code_simp
  have h4: "TeamRepository_findByName [] ''Frontend'' = None"
    by (simp add: TeamRepository_findByName_def)
  show ?thesis
    using h1 h2 h3 h4
      TeamId_normalization [where teams = "[]" and now = 0 and ?n1.0 = "''Frontend''"
        and ?n2.0 = "''FRONTEND''" and now' = 5
        and team = "\<lparr>t_id = ''frontend'', t_name = ''Frontend'', t_createdAt = 0, t_memberIds = []\<rparr>"
        and teams' = "[(''frontend'', \<lparr>t_id = ''frontend'', t_name = ''Frontend'', t_createdAt = 0, t_memberIds = []\<rparr>)]"
        and name = "''Frontend''"]
    by blast
qed


section \<open>MessageContent\<close>

text \<open>
  Claim C6: \<open>MessageContent.create(text, format)\<close> fails exactly when the text is empty
  after trimming or the trimmed text is longer than 50,000 code units, and then with a
  validation error; otherwise it holds the trimmed text and the given format (the
  default \<open>markdown\<close> when none is given). A trimmed text of exactly 50,000 code units is
  accepted, one of 50,001 is not.
\<close>

theorem MessageContent_create_spec:
  "((\<exists>e. MessageContent_create txt fmt = Inl e) \<longleftrightarrow>
      trim txt = [] \<or> 50000 < length (trim txt))
   \<and> (\<forall>e. MessageContent_create txt fmt = Inl e \<longrightarrow> (\<exists>field msg. e = ValidationError field msg))
   \<and> (trim txt \<noteq> [] \<and> length (trim txt) \<le> 50000 \<longrightarrow>
        MessageContent_create txt (Some f) = Inr \<lparr>mc_text = trim txt, mc_format = f\<rparr>
        \<and> MessageContent_create txt None = Inr \<lparr>mc_text = trim txt, mc_format = markdown\<rparr>)
   \<and> MessageContent_create (replicate 50000 CHR ''a'') (Some f) =
        Inr \<lparr>mc_text = replicate 50000 CHR ''a'', mc_format = f\<rparr>
   \<and> MessageContent_create (replicate 50001 CHR ''a'') (Some f) =
        Inl (ValidationError ''text''
               ''Message content exceeds maximum length of 50000 characters'')"
proof -
  have nws: "\<not> is_js_whitespace CHR ''a''" by code_simp
  have general:
    "((\<exists>e. MessageContent_create txt fmt = Inl e) \<longleftrightarrow>
        trim txt = [] \<or> 50000 < length (trim txt))
     \<and> (\<forall>e. MessageContent_create txt fmt = Inl e \<longrightarrow> (\<exists>field msg. e = ValidationError field msg))
     \<and> (trim txt \<noteq> [] \<and> length (trim txt) \<le> 50000 \<longrightarrow>
          MessageContent_create txt (Some f) = Inr \<lparr>mc_text = trim txt, mc_format = f\<rparr>
          \<and> MessageContent_create txt None = Inr \<lparr>mc_text = trim txt, mc_format = markdown\<rparr>)"
    by (auto simp: MessageContent_create_def maxMessageLength_def Let_def)
  have at_limit: "MessageContent_create (replicate 50000 CHR ''a'') (Some f) =
        Inr \<lparr>mc_text = replicate 50000 CHR ''a'', mc_format = f\<rparr>"
    by (simp add: MessageContent_create_def maxMessageLength_def Let_def trim_replicate [OF nws])
  have above: "MessageContent_create (replicate 50001 CHR ''a'') (Some f) =
        Inl (ValidationError ''text''
               ''Message content exceeds maximum length of 50000 characters'')"
    by (simp add: MessageContent_create_def maxMessageLength_def Let_def trim_replicate [OF nws])
  show ?thesis using general at_limit above by blast
qed

theorem MessageContent_create_spec_witness:
  "trim ''  Hello  '' = ''Hello''
   \<and> MessageContent_create ''  Hello  '' (Some plain) = Inr \<lparr>mc_text = ''Hello'', mc_format = plain\<rparr>
   \<and> MessageContent_create ''  Hello  '' None = Inr \<lparr>mc_text = ''Hello'', mc_format = markdown\<rparr>
   \<and> trim ''   '' = []
   \<and> MessageContent_create ''   '' None =
       Inl (ValidationError ''text'' ''Message content cannot be empty'')"
proof -
  have t1: "trim ''  Hello  '' = ''Hello''" by code_simp
  have t2: "trim ''   '' = []" by code_simp
  have blank: "MessageContent_create ''   '' None =
       Inl (ValidationError ''text'' ''Message content cannot be empty'')"
    using MessageContent_create_spec [where ?txt = "''   ''" and fmt = None]
    unfolding t2 by (simp add: MessageContent_create_def t2)
  show ?thesis
    using MessageContent_create_spec [where ?txt = "''  Hello  ''" and f = plain] blank
    unfolding t1 t2 by simp
qed

text \<open>
  Claim C7: for a text longer than 100 code units the preview has exactly 100 code
  units, is the first 97 of the text followed by three dots, and so ends with
  \<open>...\<close>; for a text of at most 100 code units the preview is the text.
\<close>

theorem preview_spec:
  "(100 < length (mc_text mc) \<longrightarrow>
      length (preview mc) = 100
      \<and> preview mc = take 97 (mc_text mc) @ ''...''
      \<and> drop (length (preview mc) - 3) (preview mc) = ''...'')
   \<and> (length (mc_text mc) \<le> 100 \<longrightarrow> preview mc = mc_text mc)"
  by (simp add: preview_def)

theorem preview_spec_witness:
  "100 < length (mc_text \<lparr>mc_text = replicate 150 CHR ''A'', mc_format = markdown\<rparr>)
   \<and> length (preview \<lparr>mc_text = replicate 150 CHR ''A'', mc_format = markdown\<rparr>) = 100
   \<and> preview \<lparr>mc_text = replicate 150 CHR ''A'', mc_format = markdown\<rparr> =
       replicate 97 CHR ''A'' @ ''...''
   \<and> length (mc_text \<lparr>mc_text = ''Short message'', mc_format = markdown\<rparr>) \<le> 100
   \<and> preview \<lparr>mc_text = ''Short message'', mc_format = markdown\<rparr> = ''Short message''"
  using preview_spec [of "\<lparr>mc_text = replicate 150 CHR ''A'', mc_format = markdown\<rparr>"]
    preview_spec [of "\<lparr>mc_text = ''Short message'', mc_format = markdown\<rparr>"]
  by simp

section \<open>Question transitions\<close>

text \<open>
  Claim C4: \<open>markAsAnswered\<close> raises nothing exactly when the status is \<open>PENDING\<close>, and
  then sets the status to \<open>ANSWERED\<close>, \<open>answeredAt\<close> and \<open>answeredByMemberId\<close>; in every
  other status it raises \<open>QuestionAlreadyAnswered\<close> and leaves the question as it was.
  A second \<open>markAsAnswered\<close> in a row therefore always raises. \<open>markAsTimedOut\<close> and
  \<open>markAsCancelled\<close> set the status to \<open>TIMEOUT\<close> resp. \<open>CANCELLED\<close> from \<open>PENDING\<close>, and
  return the question unchanged from any other status.
\<close>

theorem markAs_transitions:
  "(fst (markAsAnswered q now by) = None \<longleftrightarrow> q_status q = PENDING)
   \<and> (q_status q = PENDING \<longrightarrow>
        markAsAnswered q now by =
          (None, q\<lparr>q_status := ANSWERED, q_answeredAt := Some now, q_answeredByMemberId := Some by\<rparr>))
   \<and> (q_status q \<noteq> PENDING \<longrightarrow>
        markAsAnswered q now by = (Some (QuestionAlreadyAnsweredError (q_id q)), q))
   \<and> fst (markAsAnswered (snd (markAsAnswered q now by)) now' by') =
        Some (QuestionAlreadyAnsweredError (q_id q))
   \<and> (q_status q = PENDING \<longrightarrow>
        markAsTimedOut q = q\<lparr>q_status := TIMEOUT\<rparr> \<and> markAsCancelled q = q\<lparr>q_status := CANCELLED\<rparr>)
   \<and> (q_status q \<noteq> PENDING \<longrightarrow> markAsTimedOut q = q \<and> markAsCancelled q = q)"
  by (simp add: markAsAnswered_def canBeAnswered_def markAsTimedOut_def markAsCancelled_def)

theorem markAs_transitions_witness:
  "q_status (Question_create ''q1'' ''m1'' ''backend'' \<lparr>mc_text = ''hi'', mc_format = plain\<rparr> 3) = PENDING
   \<and> markAsAnswered (Question_create ''q1'' ''m1'' ''backend'' \<lparr>mc_text = ''hi'', mc_format = plain\<rparr> 3)
        7 ''m2'' =
       (None, \<lparr>q_id = ''q1'', q_fromMemberId = ''m1'', q_toTeamId = ''backend'',
               q_content = \<lparr>mc_text = ''hi'', mc_format = plain\<rparr>, q_createdAt = 3,
               q_status = ANSWERED, q_answeredAt = Some 7, q_answeredByMemberId = Some ''m2''\<rparr>)
   \<and> q_status \<lparr>q_id = ''q1'', q_fromMemberId = ''m1'', q_toTeamId = ''backend'',
               q_content = \<lparr>mc_text = ''hi'', mc_format = plain\<rparr>, q_createdAt = 3,
               q_status = ANSWERED, q_answeredAt = Some 7, q_answeredByMemberId = Some ''m2''\<rparr>
       \<noteq> PENDING
   \<and> markAsAnswered \<lparr>q_id = ''q1'', q_fromMemberId = ''m1'', q_toTeamId = ''backend'',
               q_content = \<lparr>mc_text = ''hi'', mc_format = plain\<rparr>, q_createdAt = 3,
               q_status = ANSWERED, q_answeredAt = Some 7, q_answeredByMemberId = Some ''m2''\<rparr>
        9 ''m3'' =
       (Some (QuestionAlreadyAnsweredError ''q1''),
        \<lparr>q_id = ''q1'', q_fromMemberId = ''m1'', q_toTeamId = ''backend'',
               q_content = \<lparr>mc_text = ''hi'', mc_format = plain\<rparr>, q_createdAt = 3,
               q_status = ANSWERED, q_answeredAt = Some 7, q_answeredByMemberId = Some ''m2''\<rparr>)
   \<and> markAsTimedOut \<lparr>q_id = ''q1'', q_fromMemberId = ''m1'', q_toTeamId = ''backend'',
               q_content = \<lparr>mc_text = ''hi'', mc_format = plain\<rparr>, q_createdAt = 3,
               q_status = ANSWERED, q_answeredAt = Some 7, q_answeredByMemberId = Some ''m2''\<rparr>
       = \<lparr>q_id = ''q1'', q_fromMemberId = ''m1'', q_toTeamId = ''backend'',
               q_content = \<lparr>mc_text = ''hi'', mc_format = plain\<rparr>, q_createdAt = 3,
               q_status = ANSWERED, q_answeredAt = Some 7, q_answeredByMemberId = Some ''m2''\<rparr>"
  using markAs_transitions
          [of "Question_create ''q1'' ''m1'' ''backend'' \<lparr>mc_text = ''hi'', mc_format = plain\<rparr> 3"
              7 "''m2''"]
        markAs_transitions
          [of "\<lparr>q_id = ''q1'', q_fromMemberId = ''m1'', q_toTeamId = ''backend'',
               q_content = \<lparr>mc_text = ''hi'', mc_format = plain\<rparr>, q_createdAt = 3,
               q_status = ANSWERED, q_answeredAt = Some 7, q_answeredByMemberId = Some ''m2''\<rparr>"
              9 "''m3''"]
  by (simp add: Question_create_def)

section \<open>Timeout sweep of the question repository\<close>

lemma markTimedOut_loop_closed:
  "markTimedOut_loop now older questions n =
     (n + length (filter (\<lambda>kq. isPending (snd kq) \<and> now - q_createdAt (snd kq) > older) questions),
      map (\<lambda>kq. if isPending (snd kq) \<and> now - q_createdAt (snd kq) > older
                then (fst kq, (snd kq)\<lparr>q_status := TIMEOUT\<rparr>) else kq) questions)"
proof (induction questions arbitrary: n)
  case Nil
  show ?case by simp
next
  case (Cons kq rest)
  obtain k q where kq: "kq = (k, q)" by (cases kq)
  show ?case
    unfolding kq
    by (simp add: Cons.IH markAsTimedOut_def isPending_def)
qed

text \<open>
  Claim C10: \<open>markTimedOut(olderThanMs)\<close> returns the number of stored questions that
  are \<open>PENDING\<close> and whose age \<open>now - createdAt\<close> is strictly greater than
  \<open>olderThanMs\<close>, and leaves the store with exactly these questions set to \<open>TIMEOUT\<close>:
  their other fields, every other question, the keys and their order are unchanged.
\<close>

theorem markTimedOut_exact:
  "markTimedOut questions now olderThanMs =
     (length (filter (\<lambda>kq. q_status (snd kq) = PENDING \<and> now - q_createdAt (snd kq) > olderThanMs)
                questions),
      map (\<lambda>kq. if q_status (snd kq) = PENDING \<and> now - q_createdAt (snd kq) > olderThanMs
                then (fst kq, (snd kq)\<lparr>q_status := TIMEOUT\<rparr>) else kq) questions)"
  unfolding markTimedOut_def markTimedOut_loop_closed isPending_def by simp

section \<open>AskQuestion\<close>

text \<open>
  Claim C5: \<open>AskQuestion\<close> fails with \<open>MemberNotFound\<close> when the asking member is not in
  the member repository; for an existing asker it fails with \<open>TeamNotFound\<close> when the
  target team id is not in the team repository; and for an existing asker and an
  existing target team that is the asker's own team it fails with the validation error
  of the field \<open>toTeamName\<close>, whatever the content is, since the content is built only
  after this check.
\<close>

theorem AskQuestion_failures:
  "(MemberRepository_findById (memberRepository deps) (ask_fromMemberId input) = None \<longrightarrow>
      AskQuestionUseCase_execute deps questionId now input =
        Inl (MemberNotFoundError (ask_fromMemberId input)))
   \<and> (MemberRepository_findById (memberRepository deps) (ask_fromMemberId input) = Some member
        \<and> TeamRepository_findById (teamRepository deps) (createTeamId (ask_toTeamName input)) = None \<longrightarrow>
      AskQuestionUseCase_execute deps questionId now input =
        Inl (TeamNotFoundError (ask_toTeamName input)))
   \<and> (MemberRepository_findById (memberRepository deps) (ask_fromMemberId input) = Some member
        \<and> TeamRepository_findById (teamRepository deps) (createTeamId (ask_toTeamName input)) = Some team
        \<and> m_teamId member = createTeamId (ask_toTeamName input) \<longrightarrow>
      (\<forall>c. AskQuestionUseCase_execute deps questionId now (input\<lparr>ask_content := c\<rparr>) =
        Inl (ValidationError ''toTeamName'' ''Cannot ask question to your own team'')))"
  by (simp add: AskQuestionUseCase_execute_def Let_def)

theorem AskQuestion_failures_witness:
  "MemberRepository_findById
      [(''m1'', \<lparr>m_id = ''m1'', m_teamId = ''backend'', m_displayName = ''Bob'',
                 m_connectedAt = 0, m_status = ONLINE, m_lastActivityAt = 0\<rparr>)] ''m1'' =
     Some \<lparr>m_id = ''m1'', m_teamId = ''backend'', m_displayName = ''Bob'',
           m_connectedAt = 0, m_status = ONLINE, m_lastActivityAt = 0\<rparr>
   \<and> TeamRepository_findById
        [(''backend'', \<lparr>t_id = ''backend'', t_name = ''Backend'', t_createdAt = 0,
                        t_memberIds = [''m1'']\<rparr>)] (createTeamId ''Backend'') =
       Some \<lparr>t_id = ''backend'', t_name = ''Backend'', t_createdAt = 0, t_memberIds = [''m1'']\<rparr>
   \<and> createTeamId ''Backend'' = ''backend''
   \<and> AskQuestionUseCase_execute
        \<lparr>memberRepository =
           [(''m1'', \<lparr>m_id = ''m1'', m_teamId = ''backend'', m_displayName = ''Bob'',
                      m_connectedAt = 0, m_status = ONLINE, m_lastActivityAt = 0\<rparr>)],
         teamRepository =
           [(''backend'', \<lparr>t_id = ''backend'', t_name = ''Backend'', t_createdAt = 0,
                           t_memberIds = [''m1'']\<rparr>)],
         questionRepository = []\<rparr>
        ''q_1'' 50
        \<lparr>ask_fromMemberId = ''m1'', ask_toTeamName = ''Backend'', ask_content = '''',
         ask_format = None\<rparr> =
       Inl (ValidationError ''toTeamName'' ''Cannot ask question to your own team'')
   \<and> AskQuestionUseCase_execute
        \<lparr>memberRepository =
           [(''m1'', \<lparr>m_id = ''m1'', m_teamId = ''backend'', m_displayName = ''Bob'',
                      m_connectedAt = 0, m_status = ONLINE, m_lastActivityAt = 0\<rparr>)],
         teamRepository =
           [(''backend'', \<lparr>t_id = ''backend'', t_name = ''Backend'', t_createdAt = 0,
                           t_memberIds = [''m1'']\<rparr>)],
         questionRepository = []\<rparr>
        ''q_1'' 50
        \<lparr>ask_fromMemberId = ''ghost'', ask_toTeamName = ''Backend'', ask_content = ''hello'',
         ask_format = None\<rparr> =
       Inl (MemberNotFoundError ''ghost'')
   \<and> AskQuestionUseCase_execute
        \<lparr>memberRepository =
           [(''m1'', \<lparr>m_id = ''m1'', m_teamId = ''backend'', m_displayName = ''Bob'',
                      m_connectedAt = 0, m_status = ONLINE, m_lastActivityAt = 0\<rparr>)],
         teamRepository =
           [(''backend'', \<lparr>t_id = ''backend'', t_name = ''Backend'', t_createdAt = 0,
                           t_memberIds = [''m1'']\<rparr>)],
         questionRepository = []\<rparr>
        ''q_1'' 50
        \<lparr>ask_fromMemberId = ''m1'', ask_toTeamName = ''nowhere'', ask_content = ''hello'',
         ask_format = None\<rparr> =
       Inl (TeamNotFoundError ''nowhere'')"
proof -
  let ?m = "\<lparr>m_id = ''m1'', m_teamId = ''backend'', m_displayName = ''Bob'',
             m_connectedAt = 0, m_status = ONLINE, m_lastActivityAt = 0\<rparr>"
  let ?t = "\<lparr>t_id = ''backend'', t_name = ''Backend'', t_createdAt = 0, t_memberIds = [''m1'']\<rparr>"
  let ?deps = "\<lparr>memberRepository = [(''m1'', ?m)], teamRepository = [(''backend'', ?t)],
                questionRepository = []\<rparr>"
  have c: "createTeamId ''Backend'' = ''backend''" by code_simp
  have c2: "createTeamId ''nowhere'' = ''nowhere''" by code_simp
  have m: "MemberRepository_findById [(''m1'', ?m)] ''m1'' = Some ?m"
    by (simp add: MemberRepository_findById_def)
  have g: "MemberRepository_findById [(''m1'', ?m)] ''ghost'' = None"
    by (simp add: MemberRepository_findById_def)
  have t: "TeamRepository_findById [(''backend'', ?t)] ''backend'' = Some ?t"
    by (simp add: TeamRepository_findById_def)
  have n: "TeamRepository_findById [(''backend'', ?t)] ''nowhere'' = None"
    by (simp add: TeamRepository_findById_def)
  note own = AskQuestion_failures [where deps = ?deps and member = ?m and team = ?t
      and questionId = "''q_1''" and now = 50
      and input = "\<lparr>ask_fromMemberId = ''m1'', ask_toTeamName = ''Backend'',
                     ask_content = ''hello'', ask_format = None\<rparr>"]
  note ghost = AskQuestion_failures [where deps = ?deps and member = ?m and team = ?t
      and questionId = "''q_1''" and now = 50
      and input = "\<lparr>ask_fromMemberId = ''ghost'', ask_toTeamName = ''Backend'',
                     ask_content = ''hello'', ask_format = None\<rparr>"]
  note nowhere = AskQuestion_failures [where deps = ?deps and member = ?m and team = ?t
      and questionId = "''q_1''" and now = 50
      and input = "\<lparr>ask_fromMemberId = ''m1'', ask_toTeamName = ''nowhere'',
                     ask_content = ''hello'', ask_format = None\<rparr>"]
  have 1: "AskQuestionUseCase_execute ?deps ''q_1'' 50
        \<lparr>ask_fromMemberId = ''m1'', ask_toTeamName = ''Backend'', ask_content = '''',
         ask_format = None\<rparr> =
       Inl (ValidationError ''toTeamName'' ''Cannot ask question to your own team'')"
    using own m t c by simp
  have 2: "AskQuestionUseCase_execute ?deps ''q_1'' 50
        \<lparr>ask_fromMemberId = ''ghost'', ask_toTeamName = ''Backend'', ask_content = ''hello'',
         ask_format = None\<rparr> = Inl (MemberNotFoundError ''ghost'')"
    using ghost g by simp
  have 3: "AskQuestionUseCase_execute ?deps ''q_1'' 50
        \<lparr>ask_fromMemberId = ''m1'', ask_toTeamName = ''nowhere'', ask_content = ''hello'',
         ask_format = None\<rparr> = Inl (TeamNotFoundError ''nowhere'')"
    using nowhere m n c2 by simp
  show ?thesis using m t c 1 2 3 by simp
qed

section \<open>GetInbox\<close>

lemma GetInbox_flag_ignored:
  "GetInboxUseCase_execute deps now (input\<lparr>includeAnswered := a\<rparr>) =
   GetInboxUseCase_execute deps now (input\<lparr>includeAnswered := b\<rparr>)"
proof -
  have "filter isPending (findPendingByTeamId qs t) = findPendingByTeamId qs t" for qs t
    unfolding findPendingByTeamId_def by (simp add: conj_commute)
  then show ?thesis
    unfolding GetInboxUseCase_execute_def by (simp add: Let_def split: option.splits)
qed

text \<open>
  Claim C1 asks that \<open>includeAnswered = true\<close> brings every question addressed to the
  team into the inbox, whatever its status. The use case reads the questions through
  \<open>findPendingByTeamId\<close>, which keeps the \<open>PENDING\<close> ones only, so the flag changes
  nothing (\<open>GetInbox_flag_ignored\<close>). Here the store holds one \<open>ANSWERED\<close> question
  addressed to \<open>backend\<close>, the member and the team exist, \<open>includeAnswered\<close> is
  \<open>true\<close>, and the inbox comes back empty with both counts at 0.
\<close>

theorem GetInbox_includeAnswered_drops_answered:
  "GetInboxUseCase_execute
     \<lparr>memberRepository =
        [(''m1'', \<lparr>m_id = ''m1'', m_teamId = ''backend'', m_displayName = ''Bob'',
                   m_connectedAt = 0, m_status = ONLINE, m_lastActivityAt = 0\<rparr>)],
      teamRepository =
        [(''backend'', \<lparr>t_id = ''backend'', t_name = ''backend'', t_createdAt = 0,
                        t_memberIds = [''m1'']\<rparr>)],
      questionRepository =
        [(''q1'', \<lparr>q_id = ''q1'', q_fromMemberId = ''m0'', q_toTeamId = ''backend'',
                   q_content = \<lparr>mc_text = ''hi'', mc_format = plain\<rparr>, q_createdAt = 10,
                   q_status = ANSWERED, q_answeredAt = Some 20,
                   q_answeredByMemberId = Some ''m1''\<rparr>)]\<rparr>
     100
     \<lparr>inbox_memberId = ''m1'', inbox_teamId = ''backend'', includeAnswered = Some True\<rparr>
   = Inr \<lparr>out_teamId = ''backend'', out_teamName = ''backend'', out_questions = [],
          out_totalCount = 0, out_pendingCount = 0\<rparr>"
  by (simp add: GetInboxUseCase_execute_def MemberRepository_findById_def
      TeamRepository_findById_def findPendingByTeamId_def map_values_def isPending_def Let_def)

text \<open>
  What does hold of every inbox: it is ordered by creation time descending, the two
  counts are the length of the list and the number of its \<open>PENDING\<close> items, and every
  item is \<open>PENDING\<close>.
\<close>

lemma GetInbox_shape:
  assumes "GetInboxUseCase_execute deps now input = Inr out"
  shows "sorted (map (\<lambda>i. - item_createdAt i) (out_questions out))
         \<and> out_totalCount out = length (out_questions out)
         \<and> out_pendingCount out = length (filter (\<lambda>i. item_status i = PENDING) (out_questions out))
         \<and> (\<forall>i \<in> set (out_questions out). item_status i = PENDING)"
  using assms
  unfolding GetInboxUseCase_execute_def Let_def
  by (auto split: option.splits if_splits simp: findPendingByTeamId_def toInboxItem_def isPending_def Let_def)

section \<open>Numbers in JSON text\<close>

lemma of_char_digit: "0 \<le> n \<Longrightarrow> n < 10 \<Longrightarrow> (of_char (char_of (48 + nat n)) :: nat) = 48 + nat n"
  by simp












section \<open>Strings in JSON text\<close>









section \<open>Reading back what \<open>JSON.stringify\<close> wrote\<close>


lemma value_follow_simps [simp]:
  "value_follow []" "value_follow (CHR '','' # s)" "value_follow (CHR '']'' # s)"
  "value_follow (CHR ''}'' # s)"
  by (simp_all add: value_follow_def)


lemma skip_ws_punct [simp]:
  "skip_ws (CHR '','' # s) = CHR '','' # s"
  "skip_ws (CHR '']'' # s) = CHR '']'' # s"
  "skip_ws (CHR ''}'' # s) = CHR ''}'' # s"
  "skip_ws (CHR '':'' # s) = CHR '':'' # s"
  "skip_ws (CHR 0x22 # s) = CHR 0x22 # s"
  "skip_ws [] = []"
  by (simp_all add: skip_ws_def is_json_ws_def)








lemma skip_ws_open [simp]:
  "skip_ws (CHR ''['' # s) = CHR ''['' # s"
  "skip_ws (CHR ''{'' # s) = CHR ''{'' # s"
  by (simp_all add: skip_ws_def is_json_ws_def)



section \<open>Protocol round trip\<close>

lemma json_norm_enums [simp]:
  "json_norm (MessageFormat_js f) = MessageFormat_js f"
  "json_norm (MemberStatus_js s) = MemberStatus_js s"
  "json_norm (QuestionStatus_js q) = QuestionStatus_js q"
  apply (cases f; simp)
  apply (cases s; simp)
  apply (cases q; simp)
  done

lemma enums_defined [simp]:
  "MessageFormat_js f \<noteq> JUndefined"
  "MemberStatus_js s \<noteq> JUndefined"
  "QuestionStatus_js q \<noteq> JUndefined"
  apply (cases f; simp)
  apply (cases s; simp)
  apply (cases q; simp)
  done

lemma json_ok_enums [simp]:
  "json_ok (MessageFormat_js f)"
  "json_ok (MemberStatus_js s)"
  "json_ok (QuestionStatus_js q)"
  apply (cases f; simp)
  apply (cases s; simp)
  apply (cases q; simp)
  done

lemma MemberInfo_obj_facts [simp]:
  "json_norm (MemberInfo_obj mi) = MemberInfo_obj mi"
  "json_ok (MemberInfo_obj mi)"
  "MemberInfo_obj mi \<noteq> JUndefined"
  by (simp_all add: MemberInfo_obj_def)

lemma InboxQuestionInfo_obj_facts [simp]:
  "json_norm (InboxQuestionInfo_obj q) = InboxQuestionInfo_obj q"
  "json_ok (InboxQuestionInfo_obj q) = isSafeInteger (iq_ageMs q)"
  "InboxQuestionInfo_obj q \<noteq> JUndefined"
  by (simp_all add: InboxQuestionInfo_obj_def isSafeInteger_def)

lemma optional_js_facts [simp]:
  "json_ok (optional_js x)"
  "optional_js None = JUndefined"
  "optional_js (Some s) = JStr s"
  by (cases x) (simp_all add: optional_js_def)









section \<open>LEAVE on the hub\<close>

lemma openSockets_send [simp]: "openSockets (send hub ws message) = openSockets hub"
  by (simp add: send_def)

lemma openSockets_broadcastToTeam [simp]:
  "openSockets (broadcastToTeam hub teamId excludeMemberId message) = openSockets hub"
proof -
  have "openSockets (foldl (\<lambda>h memberId.
                   case map_of (memberToWs h) memberId of
                     None \<Rightarrow> h
                   | Some ws \<Rightarrow> send h ws message) h0 ids) = openSockets h0" for h0 ids
    by (induction ids arbitrary: h0) (simp_all split: option.splits)
  then show ?thesis by (simp add: broadcastToTeam_def split: option.splits)
qed

lemma openSockets_removeMember [simp]:
  "openSockets (removeMember hub memberId teamId) = openSockets hub"
  by (simp add: removeMember_def Let_def split: option.splits)

lemma handleLeave_reply_without_member:
  assumes "map_of (clients hub) ws = Some connection"
      and "c_memberId connection = Some memberId" "c_teamId connection = Some teamId"
      and "memberId \<noteq> []" "teamId \<noteq> []" "ws \<in> set (openSockets hub)"
  shows "last (sent (handleLeave hub ws)) =
           (ws, JObj [(''type'', JStr ''LEFT''), (''memberId'', JUndefined)])"
  using assms by (simp add: handleLeave_def send_def optional_js_def)

text \<open>
  Claim C9 asks that the \<open>LEFT\<close> reply carries the id of the member that left.
  \<open>handleLeave\<close> clears \<open>connection.memberId\<close> before it builds the reply, so for a
  bound connection the reply's \<open>memberId\<close> is \<open>undefined\<close>
  (\<open>handleLeave_reply_without_member\<close>) and the text on the wire has no such field.
  Here socket 1 is bound to member \<open>m1\<close> of team \<open>backend\<close>, with a second member on
  socket 2: the team mate is told \<open>MEMBER_LEFT\<close> with \<open>m1\<close>, the leaver gets \<open>LEFT\<close>
  without a member id.
\<close>

theorem handleLeave_reply_has_undefined_memberId:
  "sent (handleLeave
      \<lparr>clients = [(1, \<lparr>c_memberId = Some ''m1'', c_teamId = Some ''backend'', c_lastPing = 0\<rparr>),
                  (2, \<lparr>c_memberId = Some ''m2'', c_teamId = Some ''backend'', c_lastPing = 0\<rparr>)],
       memberToWs = [(''m1'', 1), (''m2'', 2)],
       hubRepositories =
         \<lparr>memberRepository =
            [(''m1'', \<lparr>m_id = ''m1'', m_teamId = ''backend'', m_displayName = ''Ann'',
                       m_connectedAt = 0, m_status = ONLINE, m_lastActivityAt = 0\<rparr>),
             (''m2'', \<lparr>m_id = ''m2'', m_teamId = ''backend'', m_displayName = ''Bob'',
                       m_connectedAt = 0, m_status = ONLINE, m_lastActivityAt = 0\<rparr>)],
          teamRepository =
            [(''backend'', \<lparr>t_id = ''backend'', t_name = ''backend'', t_createdAt = 0,
                            t_memberIds = [''m1'', ''m2'']\<rparr>)],
          questionRepository = []\<rparr>,
       openSockets = [1, 2],
       sent = []\<rparr> 1)
   = [(2, JObj [(''type'', JStr ''MEMBER_LEFT''), (''memberId'', JStr ''m1''),
                (''teamId'', JStr ''backend'')]),
      (1, JObj [(''type'', JStr ''LEFT''), (''memberId'', JUndefined)])]
   \<and> serializeMessage (JObj [(''type'', JStr ''LEFT''), (''memberId'', JUndefined)])
       = ''{\"type\":\"LEFT\"}''"
  by code_simp

section \<open>Inbound messages on the hub client\<close>

lemma resolvePendingRequest_drops_first:
  assumes "pendingRequests client = (requestId, flt) # rest"
  shows "pendingRequests (resolvePendingRequest client message) = rest"
    and "requestId \<notin> set (timers (resolvePendingRequest client message))"
    and "\<not> flt message \<Longrightarrow> settled (resolvePendingRequest client message) = settled client"
  using assms
  by (simp_all add: resolvePendingRequest_def Let_def clearTimeout_def settle_def)

text \<open>
  Claim C2 asks that an inbound message resolves and removes the first waiter whose
  filter matches it and leaves every other waiter registered with its timeout.
  \<open>resolvePendingRequest\<close> takes the first entry of the map whatever its filter says,
  deletes it and clears its timeout, and only then lets the filter decide whether the
  promise is resolved (\<open>resolvePendingRequest_drops_first\<close>). Here one waiter is
  pending, for an \<open>INBOX\<close> reply with request id \<open>r1\<close>, and a \<open>QUESTION\<close> is pushed:
  the observer \<open>onQuestion\<close> is called with the message, and the waiter is gone from
  the pending requests, its timeout is cleared, and its promise is neither resolved
  nor rejected.
\<close>

theorem non_matching_waiter_is_dropped:
  "map fst (pendingRequests
      (waitForResponse
         (HubClient_new \<lparr>has_onQuestion = True, has_onAnswer = True, has_onMemberJoined = True,
                          has_onMemberLeft = True, has_onError = True\<rparr>)
         ''w1'' (\<lambda>msg. get_prop msg ''type'' = JStr ''INBOX''
                       \<and> get_prop msg ''requestId'' = JStr ''r1''))) = [''w1'']
   \<and> timers
      (waitForResponse
         (HubClient_new \<lparr>has_onQuestion = True, has_onAnswer = True, has_onMemberJoined = True,
                          has_onMemberLeft = True, has_onError = True\<rparr>)
         ''w1'' (\<lambda>msg. get_prop msg ''type'' = JStr ''INBOX''
                       \<and> get_prop msg ''requestId'' = JStr ''r1'')) = [''w1'']
   \<and> (let client =
          onMessage
            (waitForResponse
               (HubClient_new \<lparr>has_onQuestion = True, has_onAnswer = True, has_onMemberJoined = True,
                                has_onMemberLeft = True, has_onError = True\<rparr>)
               ''w1'' (\<lambda>msg. get_prop msg ''type'' = JStr ''INBOX''
                             \<and> get_prop msg ''requestId'' = JStr ''r1''))
            (serializeMessage
               (HubMessage_obj
                  (QuestionMessage ''q1''
                     \<lparr>mi_memberId = ''m2'', mi_teamId = ''frontend'', mi_teamName = ''frontend'',
                      mi_displayName = ''Ann'', mi_status = ONLINE\<rparr>
                     ''hi'' plain ''2024-01-01T10:00:00.000Z'')))
        in map fst (pendingRequests client) = []
           \<and> timers client = []
           \<and> settled client = []
           \<and> calls client =
               [onQuestion
                  (HubMessage_obj
                     (QuestionMessage ''q1''
                        \<lparr>mi_memberId = ''m2'', mi_teamId = ''frontend'', mi_teamName = ''frontend'',
                         mi_displayName = ''Ann'', mi_status = ONLINE\<rparr>
                        ''hi'' plain ''2024-01-01T10:00:00.000Z''))])"
  by code_simp

end
